theory Spec2Isabelle
  imports Main
begin

section \<open>Data model (models.py)\<close>

text \<open>
  Timestamps. A Python \<open>datetime\<close> is counted in whole minutes since
  \<open>datetime.min\<close> (0001-01-01 00:00): every timestamp of the scheduling routes comes
  from \<open>strptime\<close> with a format that ends at the minute, or from adding whole minutes.
  A date is its day number since 0001-01-01 (the proleptic ordinal minus one), so that
  \<open>datetime.combine(d, time(h, m))\<close> is \<open>d * 1440 + h * 60 + m\<close>. The range of
  \<open>datetime\<close> ends with 9999-12-31 23:59, the last minute of day 3652058; arithmetic
  that leaves the range raises \<open>OverflowError\<close>.
\<close>

type_synonym datetime = int

definition datetime_max :: datetime where
  "datetime_max = 3652059 * 1440 - 1"

text \<open>
  What a route answers. The source names no error type: a failing route flashes a
  message and renders the form again, aborts with 404, or lets an exception escape.
  One constructor per message of app.py:
  \<^item> \<open>Campos_obrigatorios\<close>: 'Por favor, preencha todos os campos obrigatorios.'
  \<^item> \<open>Data_invalida\<close>: 'Data ou hora invalida.' (the spec's InvalidDate)
  \<^item> \<open>Data_passada\<close>: 'Nao e possivel agendar para datas passadas.' (InvalidTime)
  \<^item> \<open>Servico_nao_encontrado\<close>: 'Servico nao encontrado.' (NotFound)
  \<^item> \<open>Horario_indisponivel\<close>: 'Este horario nao esta disponivel.' (SlotTaken)
  \<^item> \<open>Sem_permissao\<close>: 'Voce nao tem permissao para cancelar este agendamento.' (Forbidden)
  \<^item> \<open>Nao_pode_cancelar\<close>: 'Este agendamento nao pode ser cancelado.' (AlreadyTerminal)
  \<^item> \<open>Status_invalido\<close>: 'Status invalido.' (InvalidStatus)
  \<^item> \<open>Parametros_invalidos\<close>: the API's 400 'Parametros invalidos'
  \<^item> \<open>Http_404\<close>: \<open>get_or_404\<close> found no row
  \<^item> \<open>Erro_valor\<close>, \<open>Erro_overflow\<close>, \<open>Erro_integridade\<close>, \<open>Erro_dados\<close>: an
    uncaught ValueError, OverflowError, IntegrityError or DataError (the request ends in
    a 500 and the session's changes are not committed).
\<close>

datatype erro =
    Campos_obrigatorios
  | Data_invalida
  | Data_passada
  | Servico_nao_encontrado
  | Horario_indisponivel
  | Sem_permissao
  | Nao_pode_cancelar
  | Status_invalido
  | Parametros_invalidos
  | Http_404
  | Erro_valor
  | Erro_overflow
  | Erro_integridade
  | Erro_dados

datatype resposta = Sucesso | Falha erro

record servico =
  duracao_minutos :: int
  servico_ativo :: bool

record dentista =
  dentista_ativo :: bool

text \<open>
  An \<open>Agendamento\<close> row. \<open>status\<close> is the string column of the source
  ('pendente', 'confirmado', 'cancelado', 'concluido').
\<close>

record agendamento =
  ag_id :: int
  data_hora_inicio :: datetime
  data_hora_fim :: datetime
  status :: string
  paciente_id :: int
  dentista_id :: int
  servico_id :: int

text \<open>
  The \<open>Configuracao\<close> row. Every column is nullable, and an object made by
  \<open>Configuracao()\<close> that was never inserted has no column default applied: all of its
  attributes are \<open>None\<close>.
\<close>

record configuracao =
  hora_inicio_manha :: "string option"
  hora_fim_manha :: "string option"
  hora_inicio_tarde :: "string option"
  hora_fim_tarde :: "string option"
  intervalo_consultas :: "int option"
  segunda :: "bool option"
  terca :: "bool option"
  quarta :: "bool option"
  quinta :: "bool option"
  sexta :: "bool option"
  sabado :: "bool option"
  domingo :: "bool option"

text \<open>
  The database: the tables the scheduling routes read and write. \<open>servicos\<close> and
  \<open>dentistas\<close> map a primary key to its row, \<open>usuarios\<close> holds the primary keys of the
  users, \<open>agendamentos\<close> the rows in insertion order, \<open>proximo_id\<close> the next value of
  the appointments' key sequence (which the database advances at every insert it
  executes, also one it then refuses), \<open>config\<close> what
  \<open>Configuracao.query.first()\<close> returns.
\<close>

record banco =
  servicos :: "int \<rightharpoonup> servico"
  dentistas :: "int \<rightharpoonup> dentista"
  usuarios :: "int set"
  agendamentos :: "agendamento list"
  proximo_id :: int
  config :: "configuracao option"

section \<open>Conflict check\<close>

text \<open>\<open>Agendamento.status.in_(['pendente', 'confirmado'])\<close>\<close>

definition status_ativo :: "string \<Rightarrow> bool" where
  "status_ativo st = (st = ''pendente'' \<or> st = ''confirmado'')"

text \<open>
  The read path, app.py lines 925-929: the loop over \<open>agendamentos_dia\<close> that sets
  \<open>conflito\<close> and breaks at the first hit.
\<close>

fun conflito_dia :: "datetime \<Rightarrow> datetime \<Rightarrow> agendamento list \<Rightarrow> bool" where
  "conflito_dia horario hora_fim [] = False"
| "conflito_dia horario hora_fim (ag # ags) =
     (if horario < data_hora_fim ag \<and> hora_fim > data_hora_inicio ag then True
      else conflito_dia horario hora_fim ags)"

text \<open>
  The write path, app.py lines 272-277 and 499-504: the query for the first row of the
  dentist with an active status that starts before the new end and ends after the new
  start.
\<close>

definition busca_conflito ::
  "agendamento list \<Rightarrow> int \<Rightarrow> datetime \<Rightarrow> datetime \<Rightarrow> agendamento option" where
  "busca_conflito ags did inicio fim =
     find (\<lambda>a. dentista_id a = did \<and> status_ativo (status a) \<and>
               data_hora_inicio a < fim \<and> data_hora_fim a > inicio) ags"

section \<open>Cancelling and changing status\<close>

text \<open>\<open>Agendamento.query.get(id)\<close>: the row with this primary key.\<close>

definition busca_agendamento :: "agendamento list \<Rightarrow> int \<Rightarrow> agendamento option" where
  "busca_agendamento ags i = find (\<lambda>a. ag_id a = i) ags"

text \<open>\<open>agendamento.status = st; db.session.commit()\<close> for the row with key \<open>i\<close>.\<close>

definition grava_status :: "int \<Rightarrow> string \<Rightarrow> banco \<Rightarrow> banco" where
  "grava_status i st bd =
     bd\<lparr>agendamentos := map (\<lambda>a. if ag_id a = i then a\<lparr>status := st\<rparr> else a) (agendamentos bd)\<rparr>"

text \<open>
  \<open>cancelar_agendamento(id)\<close>, app.py lines 305-323; \<open>usuario\<close> is
  \<open>current_user.id\<close>.
\<close>

definition cancelar_agendamento :: "int \<Rightarrow> int \<Rightarrow> banco \<Rightarrow> resposta \<times> banco" where
  "cancelar_agendamento usuario i bd =
     (case busca_agendamento (agendamentos bd) i of
        None \<Rightarrow> (Falha Http_404, bd)
      | Some ag \<Rightarrow>
          if paciente_id ag \<noteq> usuario then (Falha Sem_permissao, bd)
          else if status ag = ''cancelado'' \<or> status ag = ''concluido''
            then (Falha Nao_pode_cancelar, bd)
          else (Sucesso, grava_status i ''cancelado'' bd))"

text \<open>
  \<open>atualizar_status_agendamento(id)\<close>, app.py lines 437-449; \<open>novo_status\<close> is
  \<open>request.form.get('status')\<close>, \<open>None\<close> when the field is absent.
\<close>

definition atualizar_status_agendamento ::
  "int \<Rightarrow> string option \<Rightarrow> banco \<Rightarrow> resposta \<times> banco" where
  "atualizar_status_agendamento i novo_status bd =
     (case busca_agendamento (agendamentos bd) i of
        None \<Rightarrow> (Falha Http_404, bd)
      | Some ag \<Rightarrow>
          (case novo_status of
             None \<Rightarrow> (Falha Status_invalido, bd)
           | Some st \<Rightarrow>
               if st = ''confirmado'' \<or> st = ''cancelado'' \<or> st = ''concluido''
               then (Sucesso, grava_status i st bd)
               else (Falha Status_invalido, bd)))"

section \<open>Booking\<close>

text \<open>
  A form field. \<open>Ausente\<close>: the field is missing or empty. For the date and hour,
  \<open>Malformado\<close> when \<open>strptime\<close> raises \<open>ValueError\<close> and \<open>Valor\<close> with the
  timestamp it read. The booking routes never read an id field: they hand its text to the
  database, so for an id \<open>Malformado\<close> is text that is no integer literal and \<open>Valor\<close>
  carries the integer the text denotes, of any size.
\<close>

datatype 'a campo = Ausente | Malformado | Valor 'a

record pedido =
  req_servico_id :: "int campo"
  req_dentista_id :: "int campo"
  req_data_hora :: "datetime campo"

text \<open>
  The database reading the text of an id as a value of an \<open>Integer\<close> column (32 bits),
  in \<open>Servico.query.get(servico_id)\<close>, in the conflict query and in the insert: text that
  is no integer literal, or an integer outside the 32-bit range, is an uncaught DataError.
  (A missing field never gets here: the routes refuse it first.)
\<close>

definition chave_valida :: "int \<Rightarrow> bool" where
  "chave_valida n = (- 2147483648 \<le> n \<and> n \<le> 2147483647)"

definition chave :: "int campo \<Rightarrow> erro + int" where
  "chave c =
     (case c of
        Valor n \<Rightarrow> if chave_valida n then Inr n else Inl Erro_dados
      | Malformado \<Rightarrow> Inl Erro_dados
      | Ausente \<Rightarrow> Inl Erro_dados)"

text \<open>\<open>t + timedelta(minutes=n)\<close>\<close>

definition mais_minutos :: "datetime \<Rightarrow> int \<Rightarrow> erro + datetime" where
  "mais_minutos t n =
     (if 0 \<le> t + n \<and> t + n \<le> datetime_max then Inr (t + n) else Inl Erro_overflow)"

text \<open>
  \<open>db.session.add(novo_agendamento); db.session.commit()\<close>. The three foreign keys of
  models.py (lines 139-141) are checked by the database after it has built the row: a
  violation is an uncaught IntegrityError, no row is committed, and the value the row
  took from the key sequence is gone.
\<close>

definition insere_agendamento ::
  "int \<Rightarrow> int \<Rightarrow> int \<Rightarrow> datetime \<Rightarrow> datetime \<Rightarrow> string \<Rightarrow> banco \<Rightarrow> resposta \<times> banco" where
  "insere_agendamento pid did sid inicio fim st bd =
     (if pid \<in> usuarios bd \<and> dentistas bd did \<noteq> None \<and> servicos bd sid \<noteq> None
      then (Sucesso,
            bd\<lparr>agendamentos := agendamentos bd @
                  [\<lparr>ag_id = proximo_id bd, data_hora_inicio = inicio, data_hora_fim = fim,
                    status = st, paciente_id = pid, dentista_id = did, servico_id = sid\<rparr>],
               proximo_id := proximo_id bd + 1\<rparr>)
      else (Falha Erro_integridade, bd\<lparr>proximo_id := proximo_id bd + 1\<rparr>))"

text \<open>
  \<open>agendar()\<close> on POST, app.py lines 239-298. \<open>agora\<close> is \<open>datetime.now()\<close> cut to
  the minute (a start on a whole minute is \<open>\<le>\<close> the clock iff it is \<open>\<le>\<close> the
  clock's minute); \<open>usuario\<close> is \<open>current_user.id\<close>. The service id reaches the
  database at line 264, the dentist id at the conflict query of line 272.
\<close>

definition agendar :: "datetime \<Rightarrow> int \<Rightarrow> pedido \<Rightarrow> banco \<Rightarrow> resposta \<times> banco" where
  "agendar agora usuario p bd =
     (if req_servico_id p = Ausente \<or> req_dentista_id p = Ausente \<or> req_data_hora p = Ausente
      then (Falha Campos_obrigatorios, bd)
      else
     (case req_data_hora p of
        Ausente \<Rightarrow> (Falha Campos_obrigatorios, bd)
      | Malformado \<Rightarrow> (Falha Data_invalida, bd)
      | Valor inicio \<Rightarrow>
          (if inicio \<le> agora then (Falha Data_passada, bd)
           else
            (case chave (req_servico_id p) of
               Inl e \<Rightarrow> (Falha e, bd)
             | Inr sid \<Rightarrow>
            (case servicos bd sid of
               None \<Rightarrow> (Falha Servico_nao_encontrado, bd)
             | Some sv \<Rightarrow>
                 (case mais_minutos inicio (duracao_minutos sv) of
                    Inl e \<Rightarrow> (Falha e, bd)
                  | Inr fim \<Rightarrow>
                      (case chave (req_dentista_id p) of
                         Inl e \<Rightarrow> (Falha e, bd)
                       | Inr did \<Rightarrow>
                      (case busca_conflito (agendamentos bd) did inicio fim of
                         Some c \<Rightarrow> (Falha Horario_indisponivel, bd)
                       | None \<Rightarrow>
                           insere_agendamento usuario did sid inicio fim ''pendente'' bd))))))))"

text \<open>
  \<open>admin_novo_agendamento()\<close> on POST, app.py lines 461-528; \<open>paciente\<close> is the
  form's \<open>paciente_id\<close>, whose text reaches the database only in the insert. The route
  never reads the clock.
\<close>

definition admin_novo_agendamento :: "int campo \<Rightarrow> pedido \<Rightarrow> banco \<Rightarrow> resposta \<times> banco" where
  "admin_novo_agendamento paciente p bd =
     (if paciente = Ausente \<or> req_servico_id p = Ausente \<or> req_dentista_id p = Ausente \<or>
         req_data_hora p = Ausente
      then (Falha Campos_obrigatorios, bd)
      else
     (case req_data_hora p of
        Ausente \<Rightarrow> (Falha Campos_obrigatorios, bd)
      | Malformado \<Rightarrow> (Falha Data_invalida, bd)
      | Valor inicio \<Rightarrow>
          (case chave (req_servico_id p) of
             Inl e \<Rightarrow> (Falha e, bd)
           | Inr sid \<Rightarrow>
          (case servicos bd sid of
             None \<Rightarrow> (Falha Servico_nao_encontrado, bd)
           | Some sv \<Rightarrow>
               (case mais_minutos inicio (duracao_minutos sv) of
                  Inl e \<Rightarrow> (Falha e, bd)
                | Inr fim \<Rightarrow>
                    (case chave (req_dentista_id p) of
                       Inl e \<Rightarrow> (Falha e, bd)
                     | Inr did \<Rightarrow>
                    (case busca_conflito (agendamentos bd) did inicio fim of
                       Some c \<Rightarrow> (Falha Horario_indisponivel, bd)
                     | None \<Rightarrow>
                         (case chave paciente of
                            Inl e \<Rightarrow> (Falha e, bd)
                          | Inr pid \<Rightarrow>
                              insere_agendamento pid did sid inicio fim ''confirmado'' bd))))))))"

section \<open>Slot generation and availability\<close>

text \<open>
  Python's \<open>int(s)\<close>. A string is the list of its code points, each below 256, one
  \<open>char\<close> per code point. Blanks are stripped at both ends: the six ASCII blanks and
  the two other white-space code points below 256, U+0085 and U+00A0. Then come an
  optional sign and decimal digits, where single underscores may stand between digits.
\<close>

definition py_isspace :: "char \<Rightarrow> bool" where
  "py_isspace c =
     (c \<in> set [CHR '' '', CHR 0x09, CHR 0x0A, CHR 0x0B, CHR 0x0C, CHR 0x0D, CHR 0x85, CHR 0xA0])"

definition valor_digito :: "char \<Rightarrow> int option" where
  "valor_digito c =
     map_of [(CHR ''0'', 0), (CHR ''1'', 1), (CHR ''2'', 2), (CHR ''3'', 3), (CHR ''4'', 4),
             (CHR ''5'', 5), (CHR ''6'', 6), (CHR ''7'', 7), (CHR ''8'', 8), (CHR ''9'', 9)] c"

fun py_digitos :: "int \<Rightarrow> bool \<Rightarrow> string \<Rightarrow> int option" where
  "py_digitos acc sublinhado [] = (if sublinhado then None else Some acc)"
| "py_digitos acc sublinhado (c # cs) =
     (if c = CHR ''_'' then (if sublinhado then None else py_digitos acc True cs)
      else case valor_digito c of
             None \<Rightarrow> None
           | Some d \<Rightarrow> py_digitos (10 * acc + d) False cs)"

definition py_strip :: "string \<Rightarrow> string" where
  "py_strip s = rev (dropWhile py_isspace (rev (dropWhile py_isspace s)))"

definition py_sem_sinal :: "string \<Rightarrow> int option" where
  "py_sem_sinal ds =
     (case ds of [] \<Rightarrow> None
      | c # cs \<Rightarrow> if c = CHR ''_'' then None else py_digitos 0 False ds)"

definition py_int :: "string \<Rightarrow> int option" where
  "py_int s =
     (case py_strip s of
        [] \<Rightarrow> None
      | c # cs \<Rightarrow>
          if c = CHR ''-'' then map_option uminus (py_sem_sinal cs)
          else if c = CHR ''+'' then py_sem_sinal cs
          else py_sem_sinal (c # cs))"

text \<open>\<open>s.split(sep)\<close>\<close>

fun py_split :: "char \<Rightarrow> string \<Rightarrow> string list" where
  "py_split sep [] = [[]]"
| "py_split sep (c # cs) =
     (if c = sep then [] # py_split sep cs
      else case py_split sep cs of
             [] \<Rightarrow> [[c]]
           | p # ps \<Rightarrow> (c # p) # ps)"

text \<open>
  \<open>parse_hora\<close>, app.py lines 885-890: any exception of the split, of \<open>int\<close> or of
  the unpacking into two names gives \<open>(8, 0)\<close>.
\<close>

definition parse_hora :: "string \<Rightarrow> int \<times> int" where
  "parse_hora hora_str =
     (case py_split (CHR '':'') hora_str of
        [a, b] \<Rightarrow>
          (case py_int a of
             None \<Rightarrow> (8, 0)
           | Some h \<Rightarrow> (case py_int b of None \<Rightarrow> (8, 0) | Some m \<Rightarrow> (h, m)))
      | _ \<Rightarrow> (8, 0))"

text \<open>\<open>config.hora_... or padrao\<close>: \<open>None\<close> and the empty string are falsy.\<close>

definition hora_ou :: "string option \<Rightarrow> string \<Rightarrow> string" where
  "hora_ou campo padrao = (case campo of None \<Rightarrow> padrao | Some s \<Rightarrow> if s = [] then padrao else s)"

text \<open>\<open>config.intervalo_consultas or 30\<close>: \<open>None\<close> and 0 are falsy.\<close>

definition intervalo_efetivo :: "configuracao \<Rightarrow> int" where
  "intervalo_efetivo cfg =
     (case intervalo_consultas cfg of None \<Rightarrow> 30 | Some n \<Rightarrow> if n = 0 then 30 else n)"

text \<open>
  \<open>datetime.combine(data_selecionada, datetime.min.time().replace(hour=h, minute=m))\<close>:
  \<open>replace\<close> raises \<open>ValueError\<close> for an hour outside 0..23 or a minute outside 0..59.
\<close>

definition combina :: "int \<Rightarrow> int \<times> int \<Rightarrow> erro + datetime" where
  "combina data hm =
     (case hm of (h, m) \<Rightarrow>
        if 0 \<le> h \<and> h \<le> 23 \<and> 0 \<le> m \<and> m \<le> 59 then Inr (data * 1440 + h * 60 + m)
        else Inl Erro_valor)"

text \<open>
  The loop of one shift, app.py lines 898-900 and 908-910:
  \<^verbatim>\<open>
  while hora_atual < hora_final:
      horarios_base.append(hora_atual)
      hora_atual += timedelta(minutes=intervalo)
  \<close>
  \<open>None\<close> is a loop that never ends.
\<close>

partial_function (option) gera_turno ::
  "datetime \<Rightarrow> datetime \<Rightarrow> int \<Rightarrow> datetime list \<Rightarrow> (erro + datetime list) option" where
  "gera_turno hora_atual hora_final intervalo horarios =
     (if hora_atual < hora_final then
        (case mais_minutos hora_atual intervalo of
           Inl e \<Rightarrow> Some (Inl e)
         | Inr proxima \<Rightarrow> gera_turno proxima hora_final intervalo (horarios @ [hora_atual]))
      else Some (Inr horarios))"

text \<open>
  \<open>horarios_base\<close> as app.py lines 881-910 build it: the morning shift, then the
  afternoon shift appended to the same list.
\<close>

definition turno ::
  "configuracao \<Rightarrow> int \<Rightarrow> string option \<Rightarrow> string \<Rightarrow> string option \<Rightarrow> string \<Rightarrow>
   datetime list \<Rightarrow> (erro + datetime list) option" where
  "turno cfg data ini padrao_ini fim padrao_fim horarios =
     (case combina data (parse_hora (hora_ou ini padrao_ini)) of
        Inl e \<Rightarrow> Some (Inl e)
      | Inr hora_atual \<Rightarrow>
          (case combina data (parse_hora (hora_ou fim padrao_fim)) of
             Inl e \<Rightarrow> Some (Inl e)
           | Inr hora_final \<Rightarrow> gera_turno hora_atual hora_final (intervalo_efetivo cfg) horarios))"

definition horarios_base :: "configuracao \<Rightarrow> int \<Rightarrow> (erro + datetime list) option" where
  "horarios_base cfg data =
     (case turno cfg data (hora_inicio_manha cfg) ''08:00'' (hora_fim_manha cfg) ''12:00'' [] of
        None \<Rightarrow> None
      | Some (Inl e) \<Rightarrow> Some (Inl e)
      | Some (Inr manha) \<Rightarrow>
          turno cfg data (hora_inicio_tarde cfg) ''14:00'' (hora_fim_tarde cfg) ''18:00'' manha)"

text \<open>
  \<open>data_selecionada.weekday()\<close> and the lookup in \<open>dias_habilitados\<close>, app.py lines
  866-877: day 0 (0001-01-01) is a Monday, and a flag that is \<open>None\<close> or \<open>False\<close>
  closes the day.
\<close>

definition dia_habilitado :: "configuracao \<Rightarrow> int \<Rightarrow> bool" where
  "dia_habilitado cfg data =
     (let dia_semana = data mod 7 in
      (if dia_semana = 0 then segunda cfg
       else if dia_semana = 1 then terca cfg
       else if dia_semana = 2 then quarta cfg
       else if dia_semana = 3 then quinta cfg
       else if dia_semana = 4 then sexta cfg
       else if dia_semana = 5 then sabado cfg
       else domingo cfg) = Some True)"

text \<open>\<open>Configuracao()\<close>, never inserted: no attribute is set.\<close>

definition configuracao_vazia :: configuracao where
  "configuracao_vazia =
     \<lparr>hora_inicio_manha = None, hora_fim_manha = None, hora_inicio_tarde = None,
      hora_fim_tarde = None, intervalo_consultas = None, segunda = None, terca = None,
      quarta = None, quinta = None, sexta = None, sabado = None, domingo = None\<rparr>"

text \<open>\<open>horario.strftime('%H:%M')\<close>\<close>

definition dois_digitos :: "int \<Rightarrow> string" where
  "dois_digitos n = [''0123456789'' ! nat (n div 10), ''0123456789'' ! nat (n mod 10)]"

definition strftime_HM :: "datetime \<Rightarrow> string" where
  "strftime_HM t =
     dois_digitos ((t mod 1440) div 60) @ '':'' @ dois_digitos ((t mod 1440) mod 60)"

text \<open>
  The query of app.py lines 913-917: the dentist's active appointments whose start
  falls on the selected date.
\<close>

definition agendamentos_dia :: "agendamento list \<Rightarrow> int \<Rightarrow> int \<Rightarrow> agendamento list" where
  "agendamentos_dia ags did data =
     filter (\<lambda>a. dentista_id a = did \<and> status_ativo (status a) \<and>
                 data_hora_inicio a div 1440 = data) ags"

text \<open>The filter loop of app.py lines 920-932.\<close>

fun filtra_horarios :: "int \<Rightarrow> agendamento list \<Rightarrow> datetime list \<Rightarrow> erro + string list" where
  "filtra_horarios duracao ags [] = Inr []"
| "filtra_horarios duracao ags (horario # hs) =
     (case mais_minutos horario duracao of
        Inl e \<Rightarrow> Inl e
      | Inr hora_fim \<Rightarrow>
          (case filtra_horarios duracao ags hs of
             Inl e \<Rightarrow> Inl e
           | Inr resto \<Rightarrow>
               if conflito_dia horario hora_fim ags then Inr resto
               else Inr (strftime_HM horario # resto)))"

text \<open>
  \<open>horarios_disponiveis()\<close>, app.py lines 841-934. The ids arrive through
  \<open>type=int\<close>: \<open>None\<close> when missing or not a number, and 0 is falsy. A closed day
  answers the empty list.
\<close>

definition horarios_disponiveis ::
  "int option \<Rightarrow> int campo \<Rightarrow> int option \<Rightarrow> banco \<Rightarrow> (erro + string list) option" where
  "horarios_disponiveis dentista data servico bd =
     (case dentista of
        None \<Rightarrow> Some (Inl Parametros_invalidos)
      | Some did \<Rightarrow>
     (case servico of
        None \<Rightarrow> Some (Inl Parametros_invalidos)
      | Some sid \<Rightarrow>
     (if did = 0 \<or> sid = 0 then Some (Inl Parametros_invalidos)
      else
       (case data of
          Ausente \<Rightarrow> Some (Inl Parametros_invalidos)
        | Malformado \<Rightarrow> Some (Inl Data_invalida)
        | Valor data_selecionada \<Rightarrow>
            (case servicos bd sid of
               None \<Rightarrow> Some (Inl Servico_nao_encontrado)
             | Some sv \<Rightarrow>
                 (let cfg = (case config bd of None \<Rightarrow> configuracao_vazia | Some c \<Rightarrow> c) in
                  if \<not> dia_habilitado cfg data_selecionada then Some (Inr [])
                  else
                    (case horarios_base cfg data_selecionada of
                       None \<Rightarrow> None
                     | Some (Inl e) \<Rightarrow> Some (Inl e)
                     | Some (Inr base) \<Rightarrow>
                         Some (filtra_horarios (duracao_minutos sv)
                                 (agendamentos_dia (agendamentos bd) did data_selecionada)
                                 base))))))))"

section \<open>Notions the statements use\<close>

text \<open>
  The appointments of one dentist that take part in conflicts: those with status
  'pendente' or 'confirmado'.
\<close>

definition ativos_do_dentista :: "agendamento list \<Rightarrow> int \<Rightarrow> agendamento list" where
  "ativos_do_dentista ags did =
     filter (\<lambda>a. dentista_id a = did \<and> status_ativo (status a)) ags"

text \<open>
  Two appointments overlap as half-open intervals; a list holds a double booking when
  two rows with different keys, of the same dentist and both active, overlap.
\<close>

definition sobrepoe :: "agendamento \<Rightarrow> agendamento \<Rightarrow> bool" where
  "sobrepoe a b = (data_hora_inicio a < data_hora_fim b \<and> data_hora_inicio b < data_hora_fim a)"

definition existe_sobreposicao :: "agendamento list \<Rightarrow> bool" where
  "existe_sobreposicao ags =
     list_ex (\<lambda>a. list_ex (\<lambda>b. ag_id a \<noteq> ag_id b \<and> dentista_id a = dentista_id b \<and>
                               status_ativo (status a) \<and> status_ativo (status b) \<and>
                               sobrepoe a b) ags) ags"







section \<open>Example data\<close>

text \<open>A confirmed appointment of dentist 1 from 09:00 to 09:30 on day 0.\<close>

definition ag_exemplo :: agendamento where
  "ag_exemplo = \<lparr>ag_id = 1, data_hora_inicio = 540, data_hora_fim = 570, status = ''confirmado'',
                  paciente_id = 1, dentista_id = 1, servico_id = 1\<rparr>"

text \<open>
  A database with one 30-minute service, one dentist, two patients, and
  \<open>ag_exemplo\<close> booked by patient 1.
\<close>

definition bd_exemplo :: banco where
  "bd_exemplo =
     \<lparr>servicos = [1 \<mapsto> \<lparr>duracao_minutos = 30, servico_ativo = True\<rparr>],
      dentistas = [1 \<mapsto> \<lparr>dentista_ativo = True\<rparr>],
      usuarios = {1, 2},
      agendamentos = [ag_exemplo],
      proximo_id = 2,
      config = None\<rparr>"

text \<open>
  A clinic with no appointment yet: services 1 (30 minutes) and 2 (60 minutes) active,
  service 3 inactive; dentist 1 active, dentist 2 inactive; patients 1 and 2; open from
  00:00 to 02:00 and from 14:00 to 18:00, Monday to Friday, every 30 minutes.
\<close>

definition cfg_exemplo :: configuracao where
  "cfg_exemplo =
     \<lparr>hora_inicio_manha = Some ''00:00'', hora_fim_manha = Some ''02:00'',
      hora_inicio_tarde = Some ''14:00'', hora_fim_tarde = Some ''18:00'',
      intervalo_consultas = Some 30, segunda = Some True, terca = Some True,
      quarta = Some True, quinta = Some True, sexta = Some True, sabado = Some False,
      domingo = Some False\<rparr>"

definition bd_vazio :: banco where
  "bd_vazio =
     \<lparr>servicos = [1 \<mapsto> \<lparr>duracao_minutos = 30, servico_ativo = True\<rparr>,
                  2 \<mapsto> \<lparr>duracao_minutos = 60, servico_ativo = True\<rparr>,
                  3 \<mapsto> \<lparr>duracao_minutos = 30, servico_ativo = False\<rparr>],
      dentistas = [1 \<mapsto> \<lparr>dentista_ativo = True\<rparr>, 2 \<mapsto> \<lparr>dentista_ativo = False\<rparr>],
      usuarios = {1, 2},
      agendamentos = [],
      proximo_id = 1,
      config = Some cfg_exemplo\<rparr>"

text \<open>A request for service \<open>sid\<close> with dentist \<open>did\<close> starting at minute \<open>t\<close>.\<close>

definition pedido_de :: "int \<Rightarrow> int \<Rightarrow> datetime \<Rightarrow> pedido" where
  "pedido_de sid did t =
     \<lparr>req_servico_id = Valor sid, req_dentista_id = Valor did, req_data_hora = Valor t\<rparr>"

text \<open>
  Patient 1 books 10:00 on day 0 and cancels; patient 2 books the same slot; the
  administrator then sets the first appointment to 'confirmado'. The clock stands at
  minute 100 throughout.
\<close>

definition bd_reativado :: banco where
  "bd_reativado =
     snd (atualizar_status_agendamento 1 (Some ''confirmado'')
       (snd (agendar 100 2 (pedido_de 1 1 600)
         (snd (cancelar_agendamento 1 1
           (snd (agendar 100 1 (pedido_de 1 1 600) bd_vazio)))))))"

text \<open>
  The administrator books the 60-minute service for patient 1 with dentist 1 at 23:30 of
  day 6 (minute 10050), so the appointment ends at 00:30 of day 7, a Monday.
\<close>

definition bd_virada :: banco where
  "bd_virada = snd (admin_novo_agendamento (Valor 1) (pedido_de 2 1 10050) bd_vazio)"

text \<open>
  The column defaults of \<open>Configuracao\<close> (models.py lines 178-194), and the same row
  with a slot interval of -30.
\<close>

definition cfg_padrao :: configuracao where
  "cfg_padrao =
     \<lparr>hora_inicio_manha = Some ''08:00'', hora_fim_manha = Some ''12:00'',
      hora_inicio_tarde = Some ''14:00'', hora_fim_tarde = Some ''18:00'',
      intervalo_consultas = Some 30, segunda = Some True, terca = Some True,
      quarta = Some True, quinta = Some True, sexta = Some True, sabado = Some False,
      domingo = Some False\<rparr>"

definition cfg_negativo :: configuracao where
  "cfg_negativo = cfg_padrao\<lparr>intervalo_consultas := Some (- 30)\<rparr>"

text \<open>The clinic of \<open>bd_vazio\<close> with the default calendar.\<close>

definition bd_padrao :: banco where
  "bd_padrao = bd_vazio\<lparr>config := Some cfg_padrao\<rparr>"






section \<open>Theorems\<close>

lemma conflito_dia_iff:
  "conflito_dia horario hora_fim ags =
     (\<exists>a \<in> set ags. horario < data_hora_fim a \<and> data_hora_inicio a < hora_fim)"
  by (induction ags) auto

lemma busca_conflito_iff:
  "(busca_conflito ags did inicio fim \<noteq> None) =
     (\<exists>a \<in> set (ativos_do_dentista ags did). inicio < data_hora_fim a \<and> data_hora_inicio a < fim)"
  by (auto simp: busca_conflito_def ativos_do_dentista_def find_None_iff)

text \<open>
  Claim C4. The conflict check is true iff some appointment \<open>a\<close> of the list satisfies
  \<open>s < a.end\<close> and \<open>a.start < e\<close>. The read path's loop (\<open>conflito_dia\<close>) decides this
  on the list it is given, and the write path's query (\<open>busca_conflito\<close>) finds a row iff
  the loop is true on the dentist's active appointments. Against the empty list there is no
  conflict, and appointments that only touch the candidate (\<open>s = a.end\<close> or
  \<open>e = a.start\<close>) are not reported.
\<close>

theorem conflito_meio_aberto:
  "(conflito_dia s e ags \<longleftrightarrow>
      (\<exists>a \<in> set ags. s < data_hora_fim a \<and> data_hora_inicio a < e))
   \<and> (busca_conflito ags did s e \<noteq> None \<longleftrightarrow> conflito_dia s e (ativos_do_dentista ags did))
   \<and> \<not> conflito_dia s e []
   \<and> busca_conflito [] did s e = None
   \<and> ((\<forall>a \<in> set ags. s = data_hora_fim a \<or> e = data_hora_inicio a) \<longrightarrow>
        \<not> conflito_dia s e ags \<and> busca_conflito ags did s e = None)"
proof -
  have leitura: "conflito_dia s e ags \<longleftrightarrow>
      (\<exists>a \<in> set ags. s < data_hora_fim a \<and> data_hora_inicio a < e)"
    by (rule conflito_dia_iff)
  have escrita: "busca_conflito ags did s e \<noteq> None \<longleftrightarrow> conflito_dia s e (ativos_do_dentista ags did)"
    by (simp only: busca_conflito_iff conflito_dia_iff)
  have vazio: "\<not> conflito_dia s e []" "busca_conflito [] did s e = None"
    by (simp_all add: busca_conflito_def)
  have toca: "\<not> conflito_dia s e ags \<and> busca_conflito ags did s e = None"
    if t: "\<forall>a \<in> set ags. s = data_hora_fim a \<or> e = data_hora_inicio a"
  proof -
    from t have "\<not> conflito_dia s e ags"
      unfolding conflito_dia_iff by fastforce
    moreover from t have "\<not> conflito_dia s e (ativos_do_dentista ags did)"
      unfolding conflito_dia_iff ativos_do_dentista_def by fastforce
    ultimately show ?thesis using escrita by blast
  qed
  from leitura escrita vazio toca show ?thesis by blast
qed

theorem conflito_meio_aberto_witness:
  "data_hora_fim ag_exemplo = 570 \<and> \<not> conflito_dia 570 600 [ag_exemplo]
   \<and> busca_conflito [ag_exemplo] 1 570 600 = None
   \<and> conflito_dia 560 590 [ag_exemplo] \<and> busca_conflito [ag_exemplo] 1 560 590 = Some ag_exemplo"
  using conflito_meio_aberto [of 570 600 "[ag_exemplo]" 1]
  by (simp add: ag_exemplo_def busca_conflito_def status_ativo_def)

lemma busca_grava_status:
  "busca_agendamento (agendamentos (grava_status i st bd)) i =
     map_option (\<lambda>a. a\<lparr>status := st\<rparr>) (busca_agendamento (agendamentos bd) i)"
proof -
  have "find (\<lambda>a. ag_id a = i) (map (\<lambda>a. if ag_id a = i then a\<lparr>status := st\<rparr> else a) ags) =
        map_option (\<lambda>a. a\<lparr>status := st\<rparr>) (find (\<lambda>a. ag_id a = i) ags)" for ags
    by (induction ags) auto
  then show ?thesis by (simp add: busca_agendamento_def grava_status_def)
qed

lemma busca_grava_status_outro:
  "j \<noteq> i \<Longrightarrow> busca_agendamento (agendamentos (grava_status i st bd)) j =
     busca_agendamento (agendamentos bd) j"
proof -
  assume ji: "j \<noteq> i"
  have "find (\<lambda>a. ag_id a = j) (map (\<lambda>a. if ag_id a = i then a\<lparr>status := st\<rparr> else a) ags) =
        find (\<lambda>a. ag_id a = j) ags" for ags
    using ji by (induction ags) auto
  then show ?thesis by (simp add: busca_agendamento_def grava_status_def)
qed

text \<open>
  Claim C8. \<open>cancelar_agendamento\<close> on an appointment that exists: a patient who does not
  own it gets Forbidden (\<open>Sem_permissao\<close>) and the database is unchanged; the owner of an
  appointment that is already 'cancelado' or 'concluido' gets AlreadyTerminal
  (\<open>Nao_pode_cancelar\<close>) and the database is unchanged; otherwise the call succeeds, the
  appointment's status becomes 'cancelado' and no other appointment changes. A second call
  by the owner answers AlreadyTerminal and changes nothing.
\<close>

theorem cancelar_agendamento_casos:
  assumes achado: "busca_agendamento (agendamentos bd) i = Some ag"
  shows "(paciente_id ag \<noteq> u \<longrightarrow> cancelar_agendamento u i bd = (Falha Sem_permissao, bd))
    \<and> (paciente_id ag = u \<and> (status ag = ''cancelado'' \<or> status ag = ''concluido'') \<longrightarrow>
         cancelar_agendamento u i bd = (Falha Nao_pode_cancelar, bd))
    \<and> (paciente_id ag = u \<and> status ag \<noteq> ''cancelado'' \<and> status ag \<noteq> ''concluido'' \<longrightarrow>
         fst (cancelar_agendamento u i bd) = Sucesso
         \<and> busca_agendamento (agendamentos (snd (cancelar_agendamento u i bd))) i =
             Some (ag\<lparr>status := ''cancelado''\<rparr>)
         \<and> (\<forall>j. j \<noteq> i \<longrightarrow>
               busca_agendamento (agendamentos (snd (cancelar_agendamento u i bd))) j =
               busca_agendamento (agendamentos bd) j))
    \<and> (paciente_id ag = u \<longrightarrow>
         cancelar_agendamento u i (snd (cancelar_agendamento u i bd)) =
           (Falha Nao_pode_cancelar, snd (cancelar_agendamento u i bd)))"
proof (cases "paciente_id ag = u")
  case False
  with achado show ?thesis by (simp add: cancelar_agendamento_def)
next
  case dono: True
  show ?thesis
  proof (cases "status ag = ''cancelado'' \<or> status ag = ''concluido''")
    case True
    with achado dono have "cancelar_agendamento u i bd = (Falha Nao_pode_cancelar, bd)"
      by (simp add: cancelar_agendamento_def)
    with dono True show ?thesis by simp
  next
    case False
    with achado dono have r: "cancelar_agendamento u i bd = (Sucesso, grava_status i ''cancelado'' bd)"
      by (simp add: cancelar_agendamento_def)
    have b: "busca_agendamento (agendamentos (grava_status i ''cancelado'' bd)) i =
               Some (ag\<lparr>status := ''cancelado''\<rparr>)"
      using achado by (simp add: busca_grava_status)
    have again: "cancelar_agendamento u i (grava_status i ''cancelado'' bd) =
               (Falha Nao_pode_cancelar, grava_status i ''cancelado'' bd)"
      using b dono by (simp add: cancelar_agendamento_def)
    from False dono r b again show ?thesis
      by (simp add: busca_grava_status_outro)
  qed
qed

theorem cancelar_agendamento_casos_witness:
  "busca_agendamento (agendamentos bd_exemplo) 1 = Some ag_exemplo
   \<and> cancelar_agendamento 2 1 bd_exemplo = (Falha Sem_permissao, bd_exemplo)
   \<and> fst (cancelar_agendamento 1 1 bd_exemplo) = Sucesso
   \<and> map status (agendamentos (snd (cancelar_agendamento 1 1 bd_exemplo))) = [''cancelado'']
   \<and> fst (cancelar_agendamento 1 1 (snd (cancelar_agendamento 1 1 bd_exemplo))) =
       Falha Nao_pode_cancelar"
proof -
  have achado: "busca_agendamento (agendamentos bd_exemplo) 1 = Some ag_exemplo"
    by (simp add: bd_exemplo_def busca_agendamento_def ag_exemplo_def)
  have st: "map status (agendamentos (snd (cancelar_agendamento 1 1 bd_exemplo))) = [''cancelado'']"
    by (simp add: cancelar_agendamento_def bd_exemplo_def busca_agendamento_def ag_exemplo_def
        grava_status_def)
  show ?thesis
    using achado st
      cancelar_agendamento_casos [OF achado, of 2]
      cancelar_agendamento_casos [OF achado, of 1]
    by (simp add: ag_exemplo_def)
qed

lemmas avalia_banco =
  bd_vazio_def pedido_de_def agendar_def admin_novo_agendamento_def cancelar_agendamento_def
  atualizar_status_agendamento_def insere_agendamento_def busca_conflito_def chave_def
  chave_valida_def
  busca_agendamento_def grava_status_def mais_minutos_def datetime_max_def status_ativo_def

lemma bd_reativado_linhas:
  "agendamentos bd_reativado =
     [\<lparr>ag_id = 1, data_hora_inicio = 600, data_hora_fim = 630, status = ''confirmado'',
       paciente_id = 1, dentista_id = 1, servico_id = 1\<rparr>,
      \<lparr>ag_id = 2, data_hora_inicio = 600, data_hora_fim = 630, status = ''pendente'',
       paciente_id = 2, dentista_id = 1, servico_id = 1\<rparr>]"
  by (simp add: bd_reativado_def avalia_banco)

text \<open>
  Claim C1 says that a dentist's active appointments never overlap in a reachable state.
  The code breaks it: after patient 1 books 10:00-10:30 and cancels, patient 2 books the
  same slot, and \<open>atualizar_status_agendamento\<close> then sets the cancelled appointment to
  'confirmado' with no conflict check. All four calls succeed, and the database holds two
  active appointments of dentist 1 on the same interval.
\<close>

theorem reativacao_sobrepoe:
  "fst (agendar 100 1 (pedido_de 1 1 600) bd_vazio) = Sucesso
   \<and> fst (cancelar_agendamento 1 1 (snd (agendar 100 1 (pedido_de 1 1 600) bd_vazio))) = Sucesso
   \<and> fst (agendar 100 2 (pedido_de 1 1 600)
        (snd (cancelar_agendamento 1 1 (snd (agendar 100 1 (pedido_de 1 1 600) bd_vazio))))) = Sucesso
   \<and> fst (atualizar_status_agendamento 1 (Some ''confirmado'')
        (snd (agendar 100 2 (pedido_de 1 1 600)
          (snd (cancelar_agendamento 1 1
            (snd (agendar 100 1 (pedido_de 1 1 600) bd_vazio))))))) = Sucesso
   \<and> map (\<lambda>a. (ag_id a, dentista_id a, status a, data_hora_inicio a, data_hora_fim a))
        (agendamentos bd_reativado) =
       [(1, 1, ''confirmado'', 600, 630), (2, 1, ''pendente'', 600, 630)]
   \<and> existe_sobreposicao (agendamentos bd_reativado)"
  by (simp add: bd_reativado_linhas existe_sobreposicao_def sobrepoe_def) (simp add: avalia_banco)

text \<open>
  Claim C9 says that \<open>atualizar_status_agendamento\<close> refuses an appointment whose
  status is 'cancelado' or 'concluido'. The code has no such guard: on the appointment that
  \<open>cancelar_agendamento\<close> has just cancelled, the call succeeds and the status becomes
  'confirmado' (or 'concluido').
\<close>

theorem status_terminal_alterado:
  "fst (cancelar_agendamento 1 1 bd_exemplo) = Sucesso
   \<and> map status (agendamentos (snd (cancelar_agendamento 1 1 bd_exemplo))) = [''cancelado'']
   \<and> fst (atualizar_status_agendamento 1 (Some ''confirmado'')
        (snd (cancelar_agendamento 1 1 bd_exemplo))) = Sucesso
   \<and> map status (agendamentos (snd (atualizar_status_agendamento 1 (Some ''confirmado'')
        (snd (cancelar_agendamento 1 1 bd_exemplo))))) = [''confirmado'']
   \<and> map status (agendamentos (snd (atualizar_status_agendamento 1 (Some ''concluido'')
        (snd (cancelar_agendamento 1 1 bd_exemplo))))) = [''concluido'']"
  by (simp add: bd_exemplo_def ag_exemplo_def avalia_banco)

text \<open>
  Claim C6 says that a start at or before the submission time is refused on both booking
  paths. With the clock at minute 100, \<open>agendar\<close> refuses a start at minute 100 and at
  minute 40 and leaves the database as it was; \<open>admin_novo_agendamento\<close>, which never
  reads the clock, books both and stores a confirmed appointment.
\<close>

theorem admin_agenda_no_passado:
  "agendar 100 1 (pedido_de 1 1 100) bd_vazio = (Falha Data_passada, bd_vazio)
   \<and> agendar 100 1 (pedido_de 1 1 40) bd_vazio = (Falha Data_passada, bd_vazio)
   \<and> fst (admin_novo_agendamento (Valor 1) (pedido_de 1 1 100) bd_vazio) = Sucesso
   \<and> fst (admin_novo_agendamento (Valor 1) (pedido_de 1 1 40) bd_vazio) = Sucesso
   \<and> map (\<lambda>a. (data_hora_inicio a, data_hora_fim a, status a))
        (agendamentos (snd (admin_novo_agendamento (Valor 1) (pedido_de 1 1 40) bd_vazio))) =
       [(40, 70, ''confirmado'')]"
  by (simp add: avalia_banco)


lemma bd_virada_linhas:
  "agendamentos bd_virada =
     [\<lparr>ag_id = 1, data_hora_inicio = 10050, data_hora_fim = 10110, status = ''confirmado'',
       paciente_id = 1, dentista_id = 1, servico_id = 2\<rparr>]"
  by (simp add: bd_virada_def avalia_banco)

lemma bd_virada_resto:
  "servicos bd_virada = servicos bd_vazio" "config bd_virada = Some cfg_exemplo"
  "dentistas bd_virada = dentistas bd_vazio" "usuarios bd_virada = usuarios bd_vazio"
  by (simp_all add: bd_virada_def avalia_banco)

lemmas avalia_hora =
  parse_hora_def py_int_def py_strip_def py_isspace_def py_sem_sinal_def valor_digito_def
  hora_ou_def combina_def

lemma base_exemplo:
  "horarios_base cfg_exemplo 7 =
     Some (Inr [10080, 10110, 10140, 10170, 10920, 10950, 10980, 11010, 11040, 11070, 11100, 11130])"
  by (simp add: horarios_base_def turno_def cfg_exemplo_def avalia_hora intervalo_efetivo_def
      gera_turno.simps mais_minutos_def datetime_max_def)

text \<open>
  Claim C2 says that every slot \<open>horarios_disponiveis\<close> returns passes the conflict
  check of \<open>agendar\<close>. Dentist 1 has a confirmed appointment from 23:30 of day 6 to 00:30
  of day 7. The read path looks only at appointments that start on day 7, so it offers
  00:00; the write path scans all of the dentist's active appointments and refuses
  00:00-00:30.
\<close>

theorem horario_oferecido_e_recusado:
  "horarios_disponiveis (Some 1) (Valor 7) (Some 1) bd_virada =
     Some (Inr [''00:00'', ''00:30'', ''01:00'', ''01:30'', ''14:00'', ''14:30'', ''15:00'',
                ''15:30'', ''16:00'', ''16:30'', ''17:00'', ''17:30''])
   \<and> agendar 100 2 (pedido_de 1 1 10080) bd_virada = (Falha Horario_indisponivel, bd_virada)"
proof -
  have dia: "dia_habilitado cfg_exemplo 7"
    by (simp add: dia_habilitado_def cfg_exemplo_def)
  have nenhum: "agendamentos_dia (agendamentos bd_virada) 1 7 = []"
    by (simp add: bd_virada_linhas agendamentos_dia_def)
  have leitura: "horarios_disponiveis (Some 1) (Valor 7) (Some 1) bd_virada =
     Some (Inr [''00:00'', ''00:30'', ''01:00'', ''01:30'', ''14:00'', ''14:30'', ''15:00'',
                ''15:30'', ''16:00'', ''16:30'', ''17:00'', ''17:30''])"
    by (simp add: horarios_disponiveis_def bd_virada_resto bd_vazio_def dia base_exemplo nenhum
        mais_minutos_def datetime_max_def strftime_HM_def dois_digitos_def)
  have escrita: "agendar 100 2 (pedido_de 1 1 10080) bd_virada = (Falha Horario_indisponivel, bd_virada)"
    by (simp add: agendar_def pedido_de_def chave_def chave_valida_def bd_virada_resto
        bd_virada_linhas bd_vazio_def
        mais_minutos_def datetime_max_def busca_conflito_def status_ativo_def)
  from leitura escrita show ?thesis by simp
qed










lemma gera_turno_negativo:
  assumes iv: "iv < 0"
  shows "cur < fim \<Longrightarrow> gera_turno cur fim iv acc = Some (Inl Erro_overflow)"
proof (induction "nat cur" arbitrary: cur acc rule: less_induct)
  case less
  show ?case
  proof (cases "0 \<le> cur + iv \<and> cur + iv \<le> datetime_max")
    case False
    then have "mais_minutos cur iv = Inl Erro_overflow" by (auto simp: mais_minutos_def)
    then show ?thesis using less.prems by (subst gera_turno.simps) simp
  next
    case True
    then have prox: "mais_minutos cur iv = Inr (cur + iv)" by (simp add: mais_minutos_def)
    have menor: "nat (cur + iv) < nat cur" using True iv by simp
    have "cur + iv < fim" using less.prems iv by simp
    then have "gera_turno (cur + iv) fim iv (acc @ [cur]) = Some (Inl Erro_overflow)"
      using less.hyps [OF menor] by simp
    then show ?thesis using less.prems prox by (subst gera_turno.simps) simp
  qed
qed

lemma gera_turno_positivo_termina:
  assumes iv: "0 < iv"
  shows "\<exists>r. gera_turno cur fim iv acc = Some r"
proof (induction "nat (fim - cur)" arbitrary: cur acc rule: less_induct)
  case less
  show ?case
  proof (cases "cur < fim")
    case False
    then show ?thesis by (subst gera_turno.simps) simp
  next
    case True
    show ?thesis
    proof (cases "mais_minutos cur iv")
      case (Inl e)
      then show ?thesis using True by (subst gera_turno.simps) simp
    next
      case (Inr proxima)
      then have p: "proxima = cur + iv" by (auto simp: mais_minutos_def split: if_splits)
      have menor: "nat (fim - proxima) < nat (fim - cur)" using True iv p by simp
      from less.hyps [OF menor] obtain r where
        "gera_turno proxima fim iv (acc @ [cur]) = Some r" by blast
      then show ?thesis using True Inr by (subst gera_turno.simps) simp
    qed
  qed
qed

lemma gera_turno_termina: "iv \<noteq> 0 \<Longrightarrow> \<exists>r. gera_turno cur fim iv acc = Some r"
proof (cases "0 < iv")
  case True
  then show ?thesis by (rule gera_turno_positivo_termina)
next
  case False
  assume "iv \<noteq> 0"
  with False have neg: "iv < 0" by simp
  show ?thesis
  proof (cases "cur < fim")
    case True
    then show ?thesis using gera_turno_negativo [OF neg] by blast
  next
    case False
    then show ?thesis by (subst gera_turno.simps) simp
  qed
qed

lemma intervalo_efetivo_nao_zero: "intervalo_efetivo cfg \<noteq> 0"
  by (simp add: intervalo_efetivo_def split: option.splits)

lemma turno_termina: "\<exists>r. turno cfg d ini pi fim pf acc = Some r"
  using gera_turno_termina [OF intervalo_efetivo_nao_zero]
  by (simp add: turno_def split: sum.splits)

lemma horarios_base_termina: "\<exists>r. horarios_base cfg d = Some r"
proof -
  obtain r where r: "turno cfg d (hora_inicio_manha cfg) ''08:00'' (hora_fim_manha cfg) ''12:00'' [] = Some r"
    using turno_termina by blast
  show ?thesis
  proof (cases r)
    case (Inl e)
    with r show ?thesis by (simp add: horarios_base_def)
  next
    case (Inr manha)
    with r turno_termina [of cfg d "hora_inicio_tarde cfg" "''14:00''" "hora_fim_tarde cfg" "''18:00''" manha]
    show ?thesis by (simp add: horarios_base_def)
  qed
qed

lemma horarios_disponiveis_termina: "\<exists>r. horarios_disponiveis dentista dt srv bd = Some r"
proof -
  have "\<exists>r. (case horarios_base cfg d of None \<Rightarrow> None | Some (Inl e) \<Rightarrow> Some (Inl e)
          | Some (Inr base) \<Rightarrow> Some (f base)) = Some (r :: erro + string list)" for cfg d f
    using horarios_base_termina [of cfg d] by (auto split: sum.splits)
  then show ?thesis
    by (simp add: horarios_disponiveis_def Let_def split: option.splits campo.splits)
qed


lemma combina_limites:
  "combina d hm = Inr t \<Longrightarrow> d * 1440 \<le> t \<and> t \<le> d * 1440 + 1439"
  by (cases hm) (auto simp: combina_def split: if_splits)

lemma turno_combinado:
  "combina d (parse_hora (hora_ou ini pi)) = Inr a \<Longrightarrow>
   combina d (parse_hora (hora_ou fim pf)) = Inr b \<Longrightarrow>
   turno cfg d ini pi fim pf acc = gera_turno a b (intervalo_efetivo cfg) acc"
  by (simp add: turno_def)














text \<open>
  Claim C10, as stated, fails: with the stored interval -30 and the morning shift
  08:00-12:00 the loop does not run forever. On day 0 the cursor steps back from 08:00 to
  00:00 and the next step leaves the range of \<open>datetime\<close>: the loop ends with an uncaught
  OverflowError.
\<close>

theorem intervalo_negativo_estoura:
  "intervalo_efetivo cfg_negativo = - 30
   \<and> gera_turno 480 720 (- 30) [] = Some (Inl Erro_overflow)
   \<and> horarios_base cfg_negativo 0 = Some (Inl Erro_overflow)"
  by (simp add: intervalo_efetivo_def cfg_negativo_def cfg_padrao_def horarios_base_def turno_def
      avalia_hora gera_turno.simps mais_minutos_def datetime_max_def)

text \<open>
  Claim C10, amended. Slot generation and the availability route return for every
  configuration, date and request. A missing or zero interval is replaced by 30 and any
  other stored interval is used as it is. With a positive interval the loop of a shift
  returns. With a negative interval a shift that starts before its end never yields slots:
  the cursor steps backwards, stays below the shift's end, and the loop ends with an
  uncaught OverflowError when the cursor leaves the range of \<open>datetime\<close>; a shift that
  does not start before its end is skipped.
\<close>

theorem horarios_sempre_terminam:
  "(\<exists>r. horarios_base cfg d = Some r)
   \<and> (\<exists>r. horarios_disponiveis dentista dt srv bd = Some r)
   \<and> (intervalo_consultas cfg = None \<longrightarrow> intervalo_efetivo cfg = 30)
   \<and> (intervalo_consultas cfg = Some 0 \<longrightarrow> intervalo_efetivo cfg = 30)
   \<and> (\<forall>n. intervalo_consultas cfg = Some n \<and> n \<noteq> 0 \<longrightarrow> intervalo_efetivo cfg = n)
   \<and> (0 < iv \<longrightarrow> (\<exists>r. gera_turno ini fim iv acc = Some r))
   \<and> (iv < 0 \<and> ini < fim \<longrightarrow> gera_turno ini fim iv acc = Some (Inl Erro_overflow))
   \<and> (iv < 0 \<and> \<not> ini < fim \<longrightarrow> gera_turno ini fim iv acc = Some (Inr acc))
   \<and> (intervalo_efetivo cfg < 0
        \<and> combina d (parse_hora (hora_ou (hora_inicio_manha cfg) ''08:00'')) = Inr im
        \<and> combina d (parse_hora (hora_ou (hora_fim_manha cfg) ''12:00'')) = Inr fm
        \<and> im < fm \<longrightarrow>
      horarios_base cfg d = Some (Inl Erro_overflow))"
proof -
  have efetivo: "intervalo_consultas cfg = None \<longrightarrow> intervalo_efetivo cfg = 30"
      "intervalo_consultas cfg = Some 0 \<longrightarrow> intervalo_efetivo cfg = 30"
      "\<forall>n. intervalo_consultas cfg = Some n \<and> n \<noteq> 0 \<longrightarrow> intervalo_efetivo cfg = n"
    by (simp_all add: intervalo_efetivo_def)
  have pulado: "gera_turno ini fim iv acc = Some (Inr acc)" if "\<not> ini < fim"
    using that by (subst gera_turno.simps) simp
  have manha: "horarios_base cfg d = Some (Inl Erro_overflow)"
    if "intervalo_efetivo cfg < 0"
       "combina d (parse_hora (hora_ou (hora_inicio_manha cfg) ''08:00'')) = Inr im"
       "combina d (parse_hora (hora_ou (hora_fim_manha cfg) ''12:00'')) = Inr fm"
       "im < fm"
    using that gera_turno_negativo [of "intervalo_efetivo cfg" im fm "[]"]
    by (simp add: horarios_base_def turno_combinado)
  from efetivo pulado manha horarios_base_termina [of cfg d]
    horarios_disponiveis_termina [of dentista dt srv bd]
    gera_turno_positivo_termina [of iv ini fim acc] gera_turno_negativo [of iv ini fim acc]
  show ?thesis by blast
qed

theorem horarios_sempre_terminam_witness:
  "intervalo_consultas cfg_negativo = Some (- 30)
   \<and> intervalo_efetivo cfg_negativo = - 30
   \<and> horarios_base cfg_negativo 0 = Some (Inl Erro_overflow)
   \<and> gera_turno 720 480 (- 30) [] = Some (Inr [])
   \<and> intervalo_efetivo (cfg_padrao\<lparr>intervalo_consultas := Some 0\<rparr>) = 30
   \<and> intervalo_efetivo configuracao_vazia = 30"
proof -
  have n: "intervalo_consultas cfg_negativo = Some (- 30)"
    by (simp add: cfg_negativo_def cfg_padrao_def)
  have h1: "combina 0 (parse_hora (hora_ou (hora_inicio_manha cfg_negativo) ''08:00'')) = Inr 480"
    and h2: "combina 0 (parse_hora (hora_ou (hora_fim_manha cfg_negativo) ''12:00'')) = Inr 720"
    by (simp_all add: cfg_negativo_def cfg_padrao_def avalia_hora)
  have z: "intervalo_consultas (cfg_padrao\<lparr>intervalo_consultas := Some 0\<rparr>) = Some 0"
    and v: "intervalo_consultas configuracao_vazia = None"
    by (simp_all add: configuracao_vazia_def)
  show ?thesis
    using n h1 h2 z v
      horarios_sempre_terminam [of cfg_negativo 0 None Ausente None bd_vazio "- 30" 720 480 "[]" 480 720]
      horarios_sempre_terminam [of "cfg_padrao\<lparr>intervalo_consultas := Some 0\<rparr>"]
      horarios_sempre_terminam [of configuracao_vazia]
    by simp
qed

lemma existe_sobreposicao_iff:
  "existe_sobreposicao ags =
     (\<exists>a \<in> set ags. \<exists>b \<in> set ags. ag_id a \<noteq> ag_id b \<and> dentista_id a = dentista_id b \<and>
        status_ativo (status a) \<and> status_ativo (status b) \<and> sobrepoe a b)"
  by (simp add: existe_sobreposicao_def list_ex_iff)

lemma busca_conflito_None:
  "busca_conflito ags did inicio fim = None \<Longrightarrow> a \<in> set ags \<Longrightarrow> dentista_id a = did \<Longrightarrow>
   status_ativo (status a) \<Longrightarrow> \<not> (data_hora_inicio a < fim \<and> inicio < data_hora_fim a)"
  by (auto simp: busca_conflito_def find_None_iff)

lemma insere_preserva:
  assumes livre: "busca_conflito (agendamentos bd) did inicio fim = None"
      and inv: "\<not> existe_sobreposicao (agendamentos bd)"
  shows "\<not> existe_sobreposicao (agendamentos (snd (insere_agendamento pid did sid inicio fim st bd)))"
proof (cases "pid \<in> usuarios bd \<and> dentistas bd did \<noteq> None \<and> servicos bd sid \<noteq> None")
  case False
  then show ?thesis using inv by (auto simp: insere_agendamento_def)
next
  case True
  define novo where "novo = \<lparr>ag_id = proximo_id bd, data_hora_inicio = inicio, data_hora_fim = fim,
      status = st, paciente_id = pid, dentista_id = did, servico_id = sid\<rparr>"
  have ags: "agendamentos (snd (insere_agendamento pid did sid inicio fim st bd)) =
      agendamentos bd @ [novo]"
    using True by (simp add: insere_agendamento_def novo_def)
  have n: "dentista_id novo = did" "data_hora_inicio novo = inicio" "data_hora_fim novo = fim"
    by (simp_all add: novo_def)
  show ?thesis
  proof
    assume "existe_sobreposicao (agendamentos (snd (insere_agendamento pid did sid inicio fim st bd)))"
    then obtain a b where ab: "a \<in> set (agendamentos bd) \<or> a = novo"
        "b \<in> set (agendamentos bd) \<or> b = novo" "ag_id a \<noteq> ag_id b"
        "dentista_id a = dentista_id b" "status_ativo (status a)" "status_ativo (status b)"
        "sobrepoe a b"
      unfolding ags existe_sobreposicao_iff by auto
    from ab(1,2) show False
    proof (elim disjE)
      assume "a \<in> set (agendamentos bd)" "b \<in> set (agendamentos bd)"
      with ab inv show False unfolding existe_sobreposicao_iff by blast
    next
      assume a: "a \<in> set (agendamentos bd)" and b: "b = novo"
      from busca_conflito_None [OF livre a] ab b n show False
        by (auto simp: sobrepoe_def)
    next
      assume a: "a = novo" and b: "b \<in> set (agendamentos bd)"
      from busca_conflito_None [OF livre b] ab a n show False
        by (auto simp: sobrepoe_def)
    next
      assume "a = novo" "b = novo"
      with ab(3) show False by simp
    qed
  qed
qed

lemma grava_inativo_preserva:
  assumes inativo: "\<not> status_ativo st"
      and inv: "\<not> existe_sobreposicao (agendamentos bd)"
  shows "\<not> existe_sobreposicao (agendamentos (grava_status i st bd))"
proof
  let ?f = "\<lambda>a. if ag_id a = i then a\<lparr>status := st\<rparr> else a"
  assume "existe_sobreposicao (agendamentos (grava_status i st bd))"
  then obtain a b where ab: "a \<in> set (agendamentos bd)" "b \<in> set (agendamentos bd)"
      "ag_id (?f a) \<noteq> ag_id (?f b)" "dentista_id (?f a) = dentista_id (?f b)"
      "status_ativo (status (?f a))" "status_ativo (status (?f b))" "sobrepoe (?f a) (?f b)"
    unfolding existe_sobreposicao_iff grava_status_def by auto
  from ab(5) inativo have fa: "?f a = a" by (auto split: if_splits)
  from ab(6) inativo have fb: "?f b = b" by (auto split: if_splits)
  from ab inv show False unfolding fa fb existe_sobreposicao_iff by blast
qed

text \<open>
  Where the invariant of claim C1 does hold: a database without a double booking has none
  after \<open>agendar\<close>, \<open>admin_novo_agendamento\<close>, \<open>cancelar_agendamento\<close>, or a status change
  to 'cancelado' or 'concluido', whatever the call answers. Only a status change to
  'confirmado' can introduce one.
\<close>

theorem agendar_e_cancelar_preservam:
  assumes inv: "\<not> existe_sobreposicao (agendamentos bd)"
  shows "\<not> existe_sobreposicao (agendamentos (snd (agendar agora u p bd)))
    \<and> \<not> existe_sobreposicao (agendamentos (snd (admin_novo_agendamento pac p bd)))
    \<and> \<not> existe_sobreposicao (agendamentos (snd (cancelar_agendamento u i bd)))
    \<and> \<not> existe_sobreposicao
          (agendamentos (snd (atualizar_status_agendamento i (Some ''cancelado'') bd)))
    \<and> \<not> existe_sobreposicao
          (agendamentos (snd (atualizar_status_agendamento i (Some ''concluido'') bd)))"
proof -
  have a: "\<not> existe_sobreposicao (agendamentos (snd (agendar agora u p bd)))"
    using inv insere_preserva [OF _ inv]
    by (auto simp: agendar_def split: option.splits campo.splits sum.splits if_splits)
  have b: "\<not> existe_sobreposicao (agendamentos (snd (admin_novo_agendamento pac p bd)))"
    using inv insere_preserva [OF _ inv]
    by (auto simp: admin_novo_agendamento_def
        split: option.splits campo.splits sum.splits if_splits)
  have c: "\<not> existe_sobreposicao (agendamentos (snd (cancelar_agendamento u i bd)))"
    using inv grava_inativo_preserva [OF _ inv, of "''cancelado''" i]
    by (auto simp: cancelar_agendamento_def status_ativo_def split: option.splits)
  have d: "\<not> existe_sobreposicao
          (agendamentos (snd (atualizar_status_agendamento i (Some ''cancelado'') bd)))"
    using inv grava_inativo_preserva [OF _ inv, of "''cancelado''" i]
    by (auto simp: atualizar_status_agendamento_def status_ativo_def split: option.splits)
  have e: "\<not> existe_sobreposicao
          (agendamentos (snd (atualizar_status_agendamento i (Some ''concluido'') bd)))"
    using inv grava_inativo_preserva [OF _ inv, of "''concluido''" i]
    by (auto simp: atualizar_status_agendamento_def status_ativo_def split: option.splits)
  from a b c d e show ?thesis by blast
qed

theorem agendar_e_cancelar_preservam_witness:
  "\<not> existe_sobreposicao (agendamentos bd_exemplo)
   \<and> fst (agendar 100 2 (pedido_de 1 1 570) bd_exemplo) = Sucesso
   \<and> \<not> existe_sobreposicao (agendamentos (snd (agendar 100 2 (pedido_de 1 1 570) bd_exemplo)))
   \<and> fst (agendar 100 2 (pedido_de 1 1 560) bd_exemplo) = Falha Horario_indisponivel"
proof -
  have inv: "\<not> existe_sobreposicao (agendamentos bd_exemplo)"
    by (simp add: existe_sobreposicao_def bd_exemplo_def)
  have r: "fst (agendar 100 2 (pedido_de 1 1 570) bd_exemplo) = Sucesso"
      "fst (agendar 100 2 (pedido_de 1 1 560) bd_exemplo) = Falha Horario_indisponivel"
    by (simp_all add: bd_exemplo_def ag_exemplo_def pedido_de_def agendar_def
        insere_agendamento_def busca_conflito_def mais_minutos_def datetime_max_def
        status_ativo_def chave_def chave_valida_def)
  show ?thesis
    using inv r agendar_e_cancelar_preservam [OF inv, of 100 2 "pedido_de 1 1 570" Ausente 1]
    by simp
qed

text \<open>
  The patient path of claim C6: \<open>agendar\<close> refuses a start at or before the clock with
  'Nao e possivel agendar para datas passadas' and leaves the database as it was.
\<close>

theorem agendar_recusa_passado:
  assumes "req_servico_id p \<noteq> Ausente" and "req_dentista_id p \<noteq> Ausente"
      and "req_data_hora p = Valor inicio" and "inicio \<le> agora"
  shows "agendar agora u p bd = (Falha Data_passada, bd)"
  using assms by (simp add: agendar_def)

theorem agendar_recusa_passado_witness:
  "(100::int) \<le> 100 \<and> agendar 100 1 (pedido_de 1 1 100) bd_vazio = (Falha Data_passada, bd_vazio)"
  using agendar_recusa_passado [of "pedido_de 1 1 100" 100 100 1 bd_vazio]
  by (simp add: pedido_de_def)

text \<open>
  Where the two conflict checks of claim C2 agree: if every active appointment of the
  dentist that overlaps the candidate interval starts on the selected date, the read path's
  loop over the day's appointments and the write path's query give the same answer.
\<close>

theorem leitura_e_escrita_concordam:
  assumes "\<forall>a \<in> set (ativos_do_dentista ags did).
             data_hora_inicio a div 1440 = d \<or> \<not> (s < data_hora_fim a \<and> data_hora_inicio a < e)"
  shows "conflito_dia s e (agendamentos_dia ags did d) \<longleftrightarrow> busca_conflito ags did s e \<noteq> None"
proof -
  have "conflito_dia s e (agendamentos_dia ags did d) \<longleftrightarrow>
          (\<exists>a \<in> set (ativos_do_dentista ags did). data_hora_inicio a div 1440 = d \<and>
             s < data_hora_fim a \<and> data_hora_inicio a < e)"
    unfolding conflito_dia_iff agendamentos_dia_def ativos_do_dentista_def by auto
  also have "\<dots> \<longleftrightarrow> (\<exists>a \<in> set (ativos_do_dentista ags did).
             s < data_hora_fim a \<and> data_hora_inicio a < e)"
    using assms by blast
  also have "\<dots> \<longleftrightarrow> busca_conflito ags did s e \<noteq> None"
    by (simp only: busca_conflito_iff)
  finally show ?thesis .
qed

theorem leitura_e_escrita_concordam_witness:
  "data_hora_inicio ag_exemplo div 1440 = 0
   \<and> conflito_dia 560 590 (agendamentos_dia [ag_exemplo] 1 0)
   \<and> busca_conflito [ag_exemplo] 1 560 590 = Some ag_exemplo
   \<and> \<not> conflito_dia 570 600 (agendamentos_dia [ag_exemplo] 1 0)
   \<and> busca_conflito [ag_exemplo] 1 570 600 = None"
proof -
  have h: "\<forall>a \<in> set (ativos_do_dentista [ag_exemplo] 1).
             data_hora_inicio a div 1440 = 0 \<or> \<not> (s < data_hora_fim a \<and> data_hora_inicio a < e)"
    for s e :: int
    by (simp add: ativos_do_dentista_def ag_exemplo_def)
  show ?thesis
    using leitura_e_escrita_concordam [OF h, of 560 590] leitura_e_escrita_concordam [OF h, of 570 600]
    by (simp add: ag_exemplo_def busca_conflito_def status_ativo_def agendamentos_dia_def)
qed

end
